theory Spec2Isabelle
  imports Complex_Main
begin

section \<open>JavaScript strings and numbers used by the helpers\<close>

text \<open>
  Strings are \<open>string\<close> (lists of 8-bit characters, read as code units below 256).
  Integers are exact (\<open>nat\<close>, \<open>int\<close>); a JavaScript number that may be \<open>NaN\<close> is an
  \<open>option\<close> with \<open>None\<close> for \<open>NaN\<close>. Rounding to binary64 and the exponent notation of
  \<open>Number.prototype.toString\<close> beyond \<open>10^21\<close> are outside the model.
\<close>

definition digit_chars :: string where
  "digit_chars = ''0123456789''"

text \<open>\<open>n.toString()\<close> for a non-negative integer.\<close>

function toString_nat :: "nat \<Rightarrow> string" where
  "toString_nat n =
     (if n < 10 then [digit_chars ! n]
      else toString_nat (n div 10) @ [digit_chars ! (n mod 10)])"
  by pat_completeness auto
termination
  by (relation "measure id") auto

declare toString_nat.simps [simp del]

text \<open>\<open>i.toString()\<close> and \<open>`${i}`\<close> for an integer.\<close>

definition toString_int :: "int \<Rightarrow> string" where
  "toString_int i =
     (if i < 0 then CHR ''-'' # toString_nat (nat (- i)) else toString_nat (nat i))"

text \<open>\<open>x.toString()\<close> for the result of \<open>parseInt\<close>: \<open>None\<close> is \<open>NaN\<close>.\<close>

definition toString_num :: "int option \<Rightarrow> string" where
  "toString_num x = (case x of None \<Rightarrow> ''NaN'' | Some i \<Rightarrow> toString_int i)"

text \<open>\<open>s.startsWith(p)\<close>.\<close>

definition startsWith :: "string \<Rightarrow> string \<Rightarrow> bool" where
  "startsWith s p = (take (length p) s = p)"

text \<open>\<open>s.padStart(n, c)\<close> with a one-character filler: longer strings are returned as they are.\<close>

definition padStart :: "nat \<Rightarrow> char \<Rightarrow> string \<Rightarrow> string" where
  "padStart n c s = replicate (n - length s) c @ s"

text \<open>\<open>s.split(sep)\<close> with a one-character separator: the empty string gives \<open>[""]\<close>.\<close>

fun split_js :: "char \<Rightarrow> string \<Rightarrow> string list" where
  "split_js sep [] = [[]]"
| "split_js sep (c # cs) =
     (if c = sep then [] # split_js sep cs
      else (case split_js sep cs of
              p # ps \<Rightarrow> (c # p) # ps
            | [] \<Rightarrow> [[c]]))"

text \<open>\<open>xs[i]\<close> on an array: out of range is \<open>undefined\<close>, here \<open>None\<close>.\<close>

definition nth_opt :: "'a list \<Rightarrow> nat \<Rightarrow> 'a option" where
  "nth_opt xs i = (if i < length xs then Some (xs ! i) else None)"

text \<open>White space and line terminators among the code units below 256.\<close>

definition isWhiteSpace :: "char \<Rightarrow> bool" where
  "isWhiteSpace c = ((of_char c :: nat) \<in> set [9, 10, 11, 12, 13, 32, 160])"

text \<open>The value of a digit in radixes up to 36, if the character is one.\<close>

definition digitVal :: "char \<Rightarrow> nat option" where
  "digitVal c =
     (let n = (of_char c :: nat) in
      if 48 \<le> n \<and> n \<le> 57 then Some (n - 48)
      else if 97 \<le> n \<and> n \<le> 122 then Some (n - 87)
      else if 65 \<le> n \<and> n \<le> 90 then Some (n - 55)
      else None)"

definition isRadixDigit :: "nat \<Rightarrow> char \<Rightarrow> bool" where
  "isRadixDigit r c = (case digitVal c of None \<Rightarrow> False | Some v \<Rightarrow> v < r)"

text \<open>The integer a digit string denotes in radix \<open>r\<close>, most significant digit first.\<close>

definition radixValue :: "nat \<Rightarrow> string \<Rightarrow> nat" where
  "radixValue r ds = foldl (\<lambda>a c. r * a + (case digitVal c of None \<Rightarrow> 0 | Some v \<Rightarrow> v)) 0 ds"

text \<open>
  \<open>parseInt(s)\<close> with no radix argument: leading white space is dropped, one sign is read,
  a \<open>0x\<close>/\<open>0X\<close> prefix selects radix 16, and the longest run of digits is read; no digit
  gives \<open>NaN\<close>. \<open>parseInt(undefined)\<close> reads the string \<open>"undefined"\<close>, which has no digit.
\<close>

definition parseInt_str :: "string \<Rightarrow> int option" where
  "parseInt_str s =
     (let s1 = dropWhile isWhiteSpace s;
          neg = (s1 \<noteq> [] \<and> hd s1 = CHR ''-'');
          s2 = (if s1 \<noteq> [] \<and> (hd s1 = CHR ''-'' \<or> hd s1 = CHR ''+'') then tl s1 else s1);
          hex = (take 2 s2 = ''0x'' \<or> take 2 s2 = ''0X'');
          r = (if hex then 16 else 10);
          s3 = (if hex then drop 2 s2 else s2);
          z = takeWhile (isRadixDigit r) s3
      in if z = [] then None
         else Some ((if neg then - 1 else 1) * int (radixValue r z)))"

definition parseInt :: "string option \<Rightarrow> int option" where
  "parseInt v = (case v of None \<Rightarrow> None | Some s \<Rightarrow> parseInt_str s)"

section \<open>Dates\<close>

text \<open>
  A \<open>Date\<close> is its time value, milliseconds since the epoch; only valid dates are modelled.
  The local time zone is a fixed offset \<open>tz\<close> in milliseconds, so the local calendar day of
  a date is a day number.
\<close>

type_synonym date = int

definition msPerDay :: int where
  "msPerDay = 86400000"

definition localDay :: "int \<Rightarrow> date \<Rightarrow> int" where
  "localDay tz t = (t + tz) div msPerDay"

text \<open>\<open>d.setHours(0, 0, 0, 0)\<close>: local midnight of the same calendar day.\<close>

definition startOfDay :: "int \<Rightarrow> date \<Rightarrow> date" where
  "startOfDay tz t = localDay tz t * msPerDay - tz"

text \<open>\<open>differenceInDays(a, b)\<close> of date-fns on two local midnights: the calendar days between.\<close>

definition differenceInDays :: "int \<Rightarrow> date \<Rightarrow> date \<Rightarrow> int" where
  "differenceInDays tz a b = localDay tz a - localDay tz b"

section \<open>src/lib/utils.ts\<close>

datatype DueDateUrgency = Safe | Warning5 | Warning3 | Warning1 | Overdue

text \<open>\<open>calculateDaysToDue(dueDate)\<close>; the clock reading \<open>new Date()\<close> is the argument \<open>now\<close>.\<close>

definition calculateDaysToDue :: "int \<Rightarrow> date \<Rightarrow> date \<Rightarrow> int" where
  "calculateDaysToDue tz now dueDate =
     (let today = startOfDay tz now;
          due = startOfDay tz dueDate
      in differenceInDays tz due today)"

definition getDueDateUrgency :: "int \<Rightarrow> date \<Rightarrow> date \<Rightarrow> DueDateUrgency" where
  "getDueDateUrgency tz now dueDate =
     (let days = calculateDaysToDue tz now dueDate in
      if days \<le> 0 then Overdue
      else if days \<le> 1 then Warning1
      else if days \<le> 3 then Warning3
      else if days \<le> 5 then Warning5
      else Safe)"

definition getUrgencyLabel :: "DueDateUrgency \<Rightarrow> int \<Rightarrow> string" where
  "getUrgencyLabel urgency days =
     (if urgency = Overdue then
        (if days = 0 then ''Due Today'' else toString_int \<bar>days\<bar> @ '' days overdue'')
      else if days = 1 then ''Due Tomorrow''
      else toString_int days @ '' days left'')"

text \<open>
  \<open>generateOrderNumber(lastOrderNumber)\<close>; \<open>new Date().getFullYear()\<close> is the argument
  \<open>year\<close>, and \<open>null\<close> is \<open>None\<close>. The empty string is falsy.
\<close>

definition generateOrderNumber :: "nat \<Rightarrow> string option \<Rightarrow> string" where
  "generateOrderNumber year lastOrderNumber =
     (let pfx = ''T-'' @ toString_nat year @ ''-'' in
      case lastOrderNumber of
        None \<Rightarrow> pfx @ ''0001''
      | Some l \<Rightarrow>
          if l = [] \<or> \<not> startsWith l pfx then pfx @ ''0001''
          else
            (let lastNumber = parseInt (nth_opt (split_js CHR ''-'' l) 2);
                 nextNumber = padStart 4 CHR ''0'' (toString_num (map_option (\<lambda>i. i + 1) lastNumber))
             in pfx @ nextNumber))"

text \<open>The prefix of the order numbers of a year, \<open>`T-${year}-`\<close>, and the decimal digits.\<close>

definition orderPrefix :: "nat \<Rightarrow> string" where
  "orderPrefix year = ''T-'' @ toString_nat year @ ''-''"

definition isDecimalDigit :: "char \<Rightarrow> bool" where
  "isDecimalDigit c = (c \<in> set digit_chars)"

section \<open>Branch utilities (lib/branch)\<close>

text \<open>
  The session user; \<open>branchId\<close> is \<open>None\<close> when it is \<open>null\<close> or missing. The role is the
  plain string of the source.
\<close>

record SessionUser =
  u_id :: string
  u_name :: string
  u_email :: string
  u_role :: string
  u_branchId :: "string option"
  u_branchName :: "string option"

text \<open>\<open>bodyBranchId ?? sessionUser?.branchId ?? null\<close>: only a missing value falls through.\<close>

definition resolveBranchId :: "SessionUser \<Rightarrow> string option \<Rightarrow> string option" where
  "resolveBranchId sessionUser bodyBranchId =
     (let isAdmin = (u_role sessionUser = ''ADMIN'') in
      if isAdmin then
        (case bodyBranchId of Some b \<Rightarrow> Some b | None \<Rightarrow> u_branchId sessionUser)
      else u_branchId sessionUser)"

definition hasAccessToBranch :: "SessionUser \<Rightarrow> string \<Rightarrow> bool" where
  "hasAccessToBranch sessionUser targetBranchId =
     (let isAdmin = (u_role sessionUser = ''ADMIN'') in
      if isAdmin then True
      else u_branchId sessionUser = Some targetBranchId)"

datatype failure =
    InvalidAmount
  | OrderNotFound
  | ExceedsBalance rat
  | DatesRequired
  | Unauthorized
  | NotAssignedToBranch
  | Forbidden
  | ServerError

text \<open>
  \<open>buildBranchFilter\<close>: the Prisma filter is \<open>None\<close> for \<open>{}\<close> and \<open>Some b\<close> for
  \<open>{ branchId: b }\<close>. The empty string is falsy, so it throws like a missing branch.
\<close>

definition buildBranchFilter :: "SessionUser \<Rightarrow> failure + string option" where
  "buildBranchFilter sessionUser =
     (let isAdmin = (u_role sessionUser = ''ADMIN'') in
      if isAdmin then Inr None
      else (case u_branchId sessionUser of
              None \<Rightarrow> Inl NotAssignedToBranch
            | Some b \<Rightarrow> if b = [] then Inl NotAssignedToBranch else Inr (Some b)))"

section \<open>The request body's \<open>amount\<close> and its coercions\<close>

text \<open>
  The body of a request is parsed JSON, and the order page sends \<open>amount\<close> as the text of
  its input field. The values modelled are a missing field, \<open>null\<close>, booleans, numbers and
  strings. Numbers are exact rationals with \<open>NaN\<close> and the two infinities added.
\<close>

datatype json = JUndefined | JNull | JBool bool | JNum rat | JStr string

datatype jsnum = NaN | NegInf | Fin rat | PosInf

text \<open>\<open>!v\<close>: the falsy values are a missing field, \<open>null\<close>, \<open>false\<close>, 0 and the empty string.\<close>

definition falsy :: "json \<Rightarrow> bool" where
  "falsy v =
     (case v of
        JUndefined \<Rightarrow> True
      | JNull \<Rightarrow> True
      | JBool b \<Rightarrow> \<not> b
      | JNum n \<Rightarrow> n = 0
      | JStr s \<Rightarrow> s = [])"

definition trim :: "string \<Rightarrow> string" where
  "trim s = rev (dropWhile isWhiteSpace (rev (dropWhile isWhiteSpace s)))"

definition pow10 :: "int \<Rightarrow> rat" where
  "pow10 e = (if 0 \<le> e then 10 ^ nat e else 1 / 10 ^ nat (- e))"

definition negate :: "jsnum \<Rightarrow> jsnum" where
  "negate v = (case v of NaN \<Rightarrow> NaN | NegInf \<Rightarrow> PosInf | Fin x \<Rightarrow> Fin (- x) | PosInf \<Rightarrow> NegInf)"

text \<open>An exponent part \<open>e\<close>, sign, digits at the head of the text: its value and the rest.\<close>

definition scanExponent :: "string \<Rightarrow> int \<times> string" where
  "scanExponent s =
     (case s of
        [] \<Rightarrow> (0, s)
      | c # t \<Rightarrow>
          if c = CHR ''e'' \<or> c = CHR ''E'' then
            (let neg = (t \<noteq> [] \<and> hd t = CHR ''-'');
                 t1 = (if t \<noteq> [] \<and> (hd t = CHR ''-'' \<or> hd t = CHR ''+'') then tl t else t);
                 ds = takeWhile isDecimalDigit t1
             in if ds = [] then (0, s)
                else ((if neg then - 1 else 1) * int (radixValue 10 ds),
                      dropWhile isDecimalDigit t1))
          else (0, s))"

text \<open>The longest unsigned decimal literal at the head of the text: its value and the rest.\<close>

definition scanUnsigned :: "string \<Rightarrow> (jsnum \<times> string) option" where
  "scanUnsigned s =
     (if startsWith s ''Infinity'' then Some (PosInf, drop 8 s)
      else
        (let ip = takeWhile isDecimalDigit s;
             r1 = dropWhile isDecimalDigit s
         in if r1 \<noteq> [] \<and> hd r1 = CHR ''.'' then
              (let fp = takeWhile isDecimalDigit (tl r1);
                   r2 = dropWhile isDecimalDigit (tl r1)
               in if ip = [] \<and> fp = [] then None
                  else
                    (let er = scanExponent r2 in
                     Some (Fin (of_nat (radixValue 10 (ip @ fp)) / 10 ^ length fp * pow10 (fst er)),
                           snd er)))
            else if ip = [] then None
            else
              (let er = scanExponent r1 in
               Some (Fin (of_nat (radixValue 10 ip) * pow10 (fst er)), snd er))))"

definition scanDecimal :: "string \<Rightarrow> (jsnum \<times> string) option" where
  "scanDecimal s =
     (case s of
        [] \<Rightarrow> None
      | c # t \<Rightarrow>
          if c = CHR ''-'' then map_option (\<lambda>vr. (negate (fst vr), snd vr)) (scanUnsigned t)
          else if c = CHR ''+'' then scanUnsigned t
          else scanUnsigned s)"

text \<open>\<open>parseFloat(s)\<close>: leading white space is dropped and the longest decimal prefix is read.\<close>

definition parseFloat_str :: "string \<Rightarrow> jsnum" where
  "parseFloat_str s =
     (case scanDecimal (dropWhile isWhiteSpace s) of
        None \<Rightarrow> NaN
      | Some vr \<Rightarrow> fst vr)"

text \<open>A binary, octal or hexadecimal integer literal, if the text has one of their prefixes.\<close>

definition nonDecimal :: "string \<Rightarrow> jsnum option" where
  "nonDecimal s =
     (let p = take 2 s;
          r = (if p = ''0x'' \<or> p = ''0X'' then 16
               else if p = ''0o'' \<or> p = ''0O'' then 8
               else if p = ''0b'' \<or> p = ''0B'' then 2
               else 0);
          ds = drop 2 s
      in if r = 0 then None
         else if ds \<noteq> [] \<and> list_all (isRadixDigit r) ds then Some (Fin (of_nat (radixValue r ds)))
         else Some NaN)"

text \<open>
  \<open>Number(s)\<close> for a string, the conversion behind \<open><=\<close> and \<open>>\<close>: the whole trimmed text
  must be a numeric literal, and the empty text is 0.
\<close>

definition stringToNumber :: "string \<Rightarrow> jsnum" where
  "stringToNumber s =
     (let t = trim s in
      if t = [] then Fin 0
      else (case nonDecimal t of
              Some v \<Rightarrow> v
            | None \<Rightarrow>
                (case scanDecimal t of
                   None \<Rightarrow> NaN
                 | Some vr \<Rightarrow> if snd vr = [] then fst vr else NaN)))"

definition toNumber :: "json \<Rightarrow> jsnum" where
  "toNumber v =
     (case v of
        JUndefined \<Rightarrow> NaN
      | JNull \<Rightarrow> Fin 0
      | JBool b \<Rightarrow> Fin (if b then 1 else 0)
      | JNum n \<Rightarrow> Fin n
      | JStr s \<Rightarrow> stringToNumber s)"

text \<open>\<open>parseFloat(v)\<close> reads the text of \<open>v\<close>; the text of a finite number reads back as it.\<close>

definition parseFloat :: "json \<Rightarrow> jsnum" where
  "parseFloat v =
     (case v of
        JNum n \<Rightarrow> Fin n
      | JStr s \<Rightarrow> parseFloat_str s
      | _ \<Rightarrow> NaN)"

text \<open>\<open>a < b\<close> on numbers: false when either side is \<open>NaN\<close>.\<close>

fun jsnum_less :: "jsnum \<Rightarrow> jsnum \<Rightarrow> bool" where
  "jsnum_less NaN _ = False"
| "jsnum_less _ NaN = False"
| "jsnum_less _ NegInf = False"
| "jsnum_less NegInf _ = True"
| "jsnum_less PosInf _ = False"
| "jsnum_less (Fin x) (Fin y) = (x < y)"
| "jsnum_less (Fin x) PosInf = True"

text \<open>\<open>a <= b\<close> on numbers: \<open>b < a\<close> is false and neither side is \<open>NaN\<close>.\<close>

definition jsnum_le :: "jsnum \<Rightarrow> jsnum \<Rightarrow> bool" where
  "jsnum_le a b = (a \<noteq> NaN \<and> b \<noteq> NaN \<and> \<not> jsnum_less b a)"

section \<open>The database and the activity log (lib/activity-log.ts)\<close>

text \<open>
  The tables the handlers read and write, in insertion order, and the server console. Money
  is an exact rational. The customer of an order and the opaque metadata of an activity are
  left out.
\<close>

record Order =
  o_id :: string
  o_orderNumber :: string
  o_branchId :: string
  o_totalAmount :: rat

record Payment =
  p_id :: string
  p_orderId :: string
  p_amount :: rat
  p_paymentDate :: date
  p_paymentMethod :: string
  p_note :: "string option"
  p_createdBy :: "string option"

datatype ActivityAction = CREATE | UPDATE | DELETE

datatype ActivityEntity = ORDER | CUSTOMER | PAYMENT | USER

text \<open>The description of an activity is kept as its template and the values put into it.\<close>

datatype description = RecordedPayment json string | Described string

record LogActivityParams =
  la_userId :: string
  la_userName :: string
  la_branchId :: string
  la_action :: ActivityAction
  la_entity :: ActivityEntity
  la_entityId :: "string option"
  la_description :: description

record ActivityLog =
  al_userId :: string
  al_userName :: string
  al_branchId :: string
  al_action :: ActivityAction
  al_entity :: ActivityEntity
  al_entityId :: "string option"
  al_description :: description

record db =
  orders :: "Order list"
  payments :: "Payment list"
  activityLogs :: "ActivityLog list"
  console :: "string list"

text \<open>
  \<open>prisma.activityLog.create\<close>: the storage either stores the row or rejects with an error;
  which of the two is the storage's doing, the argument \<open>fault\<close>.
\<close>

definition activityLog_create :: "string option \<Rightarrow> ActivityLog \<Rightarrow> db \<Rightarrow> string + db" where
  "activityLog_create fault row d =
     (case fault of
        Some e \<Rightarrow> Inl e
      | None \<Rightarrow> Inr (d\<lparr>activityLogs := activityLogs d @ [row]\<rparr>))"

text \<open>
  \<open>logActivity\<close>: the \<open>try\<close> block writes the row, the \<open>catch\<close> block prints the error. A
  thrown error would be \<open>Inl\<close>. \<open>params.entityId || null\<close> turns the empty string into \<open>null\<close>.
\<close>

definition logActivity :: "string option \<Rightarrow> LogActivityParams \<Rightarrow> db \<Rightarrow> string + db" where
  "logActivity fault params d =
     (case activityLog_create fault
             \<lparr>al_userId = la_userId params,
              al_userName = la_userName params,
              al_branchId = la_branchId params,
              al_action = la_action params,
              al_entity = la_entity params,
              al_entityId = (case la_entityId params of
                               None \<Rightarrow> None
                             | Some i \<Rightarrow> if i = [] then None else Some i),
              al_description = la_description params\<rparr> d of
        Inr d' \<Rightarrow> Inr d'
      | Inl error \<Rightarrow> Inr (d\<lparr>console := console d @ [''Failed to log activity: '' @ error]\<rparr>))"

section \<open>The payment routes\<close>

text \<open>
  A response is its status and, when the handler answers with data, the data. The text of an
  error message is left out; \<open>ExceedsBalance\<close> carries the balance the message prints.
\<close>

datatype 'a response = Json nat 'a | Failure nat failure

text \<open>\<open>reduce((sum, p) => sum + p.amount, 0)\<close>.\<close>

definition sumAmounts :: "Payment list \<Rightarrow> rat" where
  "sumAmounts ps = foldl (\<lambda>sum p. sum + p_amount p) 0 ps"

text \<open>\<open>include: { payments: true }\<close>: the payments of an order.\<close>

definition paymentsOf :: "db \<Rightarrow> string \<Rightarrow> Payment list" where
  "paymentsOf d oid = filter (\<lambda>p. p_orderId p = oid) (payments d)"

text \<open>\<open>prisma.order.findUnique({ where: { id } })\<close>.\<close>

definition findOrder :: "db \<Rightarrow> string \<Rightarrow> Order option" where
  "findOrder d oid = find (\<lambda>ord. o_id ord = oid) (orders d)"

text \<open>
  The query of a payment list: the optional filters on the order id, on the payment date
  (both bounds inclusive) and on the branch of the order, and \<open>include: { order }\<close>.
\<close>

definition wherePayment ::
  "db \<Rightarrow> string option \<Rightarrow> (date \<times> date) option \<Rightarrow> string option \<Rightarrow> Payment \<Rightarrow> bool" where
  "wherePayment d orderId rng branch p =
     ((case orderId of None \<Rightarrow> True | Some oid \<Rightarrow> p_orderId p = oid) \<and>
      (case rng of None \<Rightarrow> True | Some r \<Rightarrow> fst r \<le> p_paymentDate p \<and> p_paymentDate p \<le> snd r) \<and>
      (case branch of
         None \<Rightarrow> True
       | Some b \<Rightarrow> (case findOrder d (p_orderId p) of None \<Rightarrow> False | Some ord \<Rightarrow> o_branchId ord = b)))"

definition withOrder :: "db \<Rightarrow> Payment \<Rightarrow> Payment \<times> Order option" where
  "withOrder d p = (p, findOrder d (p_orderId p))"

text \<open>A query parameter that is missing or empty is falsy.\<close>

definition present :: "string option \<Rightarrow> string option" where
  "present v = (case v of None \<Rightarrow> None | Some s \<Rightarrow> if s = [] then None else Some s)"

text \<open>
  A request: the session of the caller, if any, and the query parameters. The date
  parameters are the dates their texts parse to; texts that are no dates are not modelled.
\<close>

record request =
  session :: "SessionUser option"
  q_orderId :: "string option"
  q_startDate :: "date option"
  q_endDate :: "date option"

definition dateRange :: "request \<Rightarrow> (date \<times> date) option" where
  "dateRange req =
     (case (q_startDate req, q_endDate req) of
        (Some a, Some b) \<Rightarrow> Some (a, b)
      | _ \<Rightarrow> None)"

text \<open>
  \<open>GET /api/payments\<close> of \<open>tailor-shop/src/app/api/payments/route.ts\<close>: it does not read the
  session.
\<close>

definition payments_GET :: "request \<Rightarrow> db \<Rightarrow> (Payment \<times> Order option) list response" where
  "payments_GET req d =
     Json 200
       (map (withOrder d)
          (sort_key (\<lambda>p. - p_paymentDate p)
             (filter (wherePayment d (present (q_orderId req)) (dateRange req) None) (payments d))))"

text \<open>
  Modelled from the spec: \<open>requireAuth\<close> of \<open>lib/auth\<close>, which is not among the sources. The
  session collaborator supplies the user descriptor; without a session the call throws the
  error \<open>Unauthorized\<close>, which the handlers' \<open>catch\<close> blocks answer with 401.
\<close>

definition requireAuth :: "request \<Rightarrow> failure + SessionUser" where
  "requireAuth req = (case session req of None \<Rightarrow> Inl Unauthorized | Some u \<Rightarrow> Inr u)"

text \<open>
  \<open>GET /api/payments\<close> of the multi-branch version of the route (in the sources it follows
  the orders route in \<open>src/app/api/branches/route.ts\<close>): the route with branch filtering.
\<close>

definition payments_GET_branch :: "request \<Rightarrow> db \<Rightarrow> (Payment \<times> Order option) list response" where
  "payments_GET_branch req d =
     (case requireAuth req of
        Inl e \<Rightarrow> Failure 401 e
      | Inr user \<Rightarrow>
          if u_role user \<noteq> ''ADMIN'' \<and> present (u_branchId user) = None
          then Failure 400 NotAssignedToBranch
          else
            Json 200
              (map (withOrder d)
                 (sort_key (\<lambda>p. - p_paymentDate p)
                    (filter
                       (wherePayment d (present (q_orderId req)) (dateRange req)
                          (if u_role user \<noteq> ''ADMIN'' then u_branchId user else None))
                       (payments d)))))"

text \<open>
  The body of \<open>POST /api/payments\<close>. The order id is a string or missing; the payment date
  is the date its text parses to; \<open>amount\<close> is any of the JSON values above.
\<close>

record PaymentBody =
  b_orderId :: "string option"
  b_amount :: json
  b_paymentDate :: "date option"
  b_paymentMethod :: "string option"
  b_note :: "string option"

text \<open>
  The \<open>data\<close> of \<open>prisma.payment.create\<close>: \<open>paymentMethod\<close> defaults to \<open>CASH\<close>, a missing
  payment date is the clock reading \<open>now\<close>, \<open>note || null\<close>. The id is the one the database
  generates, the argument \<open>newId\<close>.
\<close>

definition paymentData ::
  "date \<Rightarrow> string \<Rightarrow> PaymentBody \<Rightarrow> string \<Rightarrow> rat \<Rightarrow> string option \<Rightarrow> Payment" where
  "paymentData now newId body orderId a createdBy =
     \<lparr>p_id = newId,
      p_orderId = orderId,
      p_amount = a,
      p_paymentDate = (case b_paymentDate body of None \<Rightarrow> now | Some t \<Rightarrow> t),
      p_paymentMethod = (case b_paymentMethod body of None \<Rightarrow> ''CASH'' | Some m \<Rightarrow> m),
      p_note = present (b_note body),
      p_createdBy = createdBy\<rparr>"

text \<open>
  \<open>POST /api/payments\<close> of \<open>tailor-shop/src/app/api/payments/route.ts\<close>. The checks read
  \<open>amount\<close> as it came, the write stores \<open>parseFloat(amount)\<close>. A write of a value that is
  no finite number is taken to be rejected by the database client, which the handler reports
  as 500. The answer carries the payment, its order and the order's payments after the
  write. The confirmation SMS that follows the write is left out: its errors are caught and it
  changes neither the answer nor the tables.
\<close>

definition payments_POST ::
  "date \<Rightarrow> string \<Rightarrow> PaymentBody \<Rightarrow> db \<Rightarrow> (Payment \<times> Order \<times> Payment list) response \<times> db" where
  "payments_POST now newId body d =
     (case present (b_orderId body) of
        None \<Rightarrow> (Failure 400 InvalidAmount, d)
      | Some orderId \<Rightarrow>
          if falsy (b_amount body) \<or> jsnum_le (toNumber (b_amount body)) (Fin 0)
          then (Failure 400 InvalidAmount, d)
          else
            (case findOrder d orderId of
               None \<Rightarrow> (Failure 404 OrderNotFound, d)
             | Some ord \<Rightarrow>
                 (let totalPaid = sumAmounts (paymentsOf d (o_id ord));
                      balance = o_totalAmount ord - totalPaid
                  in if jsnum_less (Fin balance) (toNumber (b_amount body))
                     then (Failure 400 (ExceedsBalance balance), d)
                     else
                       (case parseFloat (b_amount body) of
                          Fin a \<Rightarrow>
                            (let payment = paymentData now newId body orderId a None;
                                 d' = d\<lparr>payments := payments d @ [payment]\<rparr>
                             in (Json 201 (payment, ord, paymentsOf d' (o_id ord)), d'))
                        | _ \<Rightarrow> (Failure 500 ServerError, d)))))"

text \<open>
  \<open>POST /api/payments\<close> of the multi-branch version of the route: the same checks after
  \<open>requireAuth\<close> and the branch check, then the write, then \<open>await logActivity(...)\<close>. An
  error thrown by \<open>logActivity\<close> would reach the handler's \<open>catch\<close> and be reported as 500.
\<close>

definition payments_POST_branch ::
  "string option \<Rightarrow> date \<Rightarrow> string \<Rightarrow> request \<Rightarrow> PaymentBody \<Rightarrow> db
     \<Rightarrow> (Payment \<times> Order \<times> Payment list) response \<times> db" where
  "payments_POST_branch fault now newId req body d =
     (case requireAuth req of
        Inl e \<Rightarrow> (Failure 401 e, d)
      | Inr user \<Rightarrow>
     (case present (b_orderId body) of
        None \<Rightarrow> (Failure 400 InvalidAmount, d)
      | Some orderId \<Rightarrow>
          if falsy (b_amount body) \<or> jsnum_le (toNumber (b_amount body)) (Fin 0)
          then (Failure 400 InvalidAmount, d)
          else
            (case findOrder d orderId of
               None \<Rightarrow> (Failure 404 OrderNotFound, d)
             | Some ord \<Rightarrow>
                 if \<not> hasAccessToBranch user (o_branchId ord) then (Failure 403 Forbidden, d)
                 else
                 (let totalPaid = sumAmounts (paymentsOf d (o_id ord));
                      balance = o_totalAmount ord - totalPaid
                  in if jsnum_less (Fin balance) (toNumber (b_amount body))
                     then (Failure 400 (ExceedsBalance balance), d)
                     else
                       (case parseFloat (b_amount body) of
                          Fin a \<Rightarrow>
                            (let payment = paymentData now newId body orderId a (Some (u_id user));
                                 d' = d\<lparr>payments := payments d @ [payment]\<rparr>
                             in (case logActivity fault
                                        \<lparr>la_userId = u_id user,
                                         la_userName = u_name user,
                                         la_branchId = o_branchId ord,
                                         la_action = CREATE,
                                         la_entity = PAYMENT,
                                         la_entityId = Some (p_id payment),
                                         la_description =
                                           RecordedPayment (b_amount body) (o_orderNumber ord)\<rparr> d' of
                                   Inl e \<Rightarrow> (Failure 500 ServerError, d')
                                 | Inr d'' \<Rightarrow>
                                     (Json 201 (payment, ord, paymentsOf d' (o_id ord)), d'')))
                        | _ \<Rightarrow> (Failure 500 ServerError, d))))))"

section \<open>The weekly payments report\<close>

text \<open>
  \<open>format(d, 'yyyy-MM-dd')\<close> is the local calendar day of \<open>d\<close>, kept as its day number, and
  \<open>format(d, 'EEEE')\<close> is the name of its weekday; day 0 is a Thursday.
\<close>

definition formatDay :: "int \<Rightarrow> date \<Rightarrow> int" where
  "formatDay tz t = localDay tz t"

definition dayName :: "int \<Rightarrow> date \<Rightarrow> string" where
  "dayName tz t =
     [''Sunday'', ''Monday'', ''Tuesday'', ''Wednesday'', ''Thursday'', ''Friday'', ''Saturday'']
       ! nat ((localDay tz t + 4) mod 7)"

text \<open>
  \<open>eachDayOfInterval({ start, end })\<close> of date-fns: the local midnights of the days from the
  day of \<open>start\<close> to the day of \<open>end\<close>. For an end before the start date-fns 2 throws a
  \<open>RangeError\<close>, here \<open>None\<close>.
\<close>

definition eachDayOfInterval :: "int \<Rightarrow> date \<Rightarrow> date \<Rightarrow> date list option" where
  "eachDayOfInterval tz startDate endDate =
     (if endDate < startDate then None
      else Some (map (\<lambda>k. k * msPerDay - tz) [localDay tz startDate..localDay tz endDate]))"

record DayBucket =
  d_date :: int
  d_dayName :: string
  d_total :: rat
  d_count :: nat
  d_payments :: "(Payment \<times> Order option) list"

record WeeklyReport =
  w_startDate :: int
  w_endDate :: int
  w_totalAmount :: rat
  w_totalCount :: nat
  w_byDay :: "DayBucket list"
  w_allPayments :: "(Payment \<times> Order option) list"

text \<open>\<open>reduce((sum, p) => sum + p.amount, 0)\<close> over payments fetched with their orders.\<close>

definition totalOf :: "(Payment \<times> Order option) list \<Rightarrow> rat" where
  "totalOf ps = foldl (\<lambda>sum p. sum + p_amount (fst p)) 0 ps"

text \<open>The bucket of one day: the body of \<open>days.map((day) => ...)\<close>.\<close>

definition dayBucket :: "int \<Rightarrow> (Payment \<times> Order option) list \<Rightarrow> date \<Rightarrow> DayBucket" where
  "dayBucket tz fetched day =
     (let dayPayments =
            filter (\<lambda>p. formatDay tz (p_paymentDate (fst p)) = formatDay tz day) fetched
      in \<lparr>d_date = formatDay tz day,
          d_dayName = dayName tz day,
          d_total = totalOf dayPayments,
          d_count = length dayPayments,
          d_payments = dayPayments\<rparr>)"

text \<open>
  \<open>GET /api/reports/weekly-payments\<close>: it does not read the session. The grouping by
  payment method is left out of the report.
\<close>

definition weekly_GET :: "int \<Rightarrow> request \<Rightarrow> db \<Rightarrow> WeeklyReport response" where
  "weekly_GET tz req d =
     (case (q_startDate req, q_endDate req) of
        (Some startDate, Some endDate) \<Rightarrow>
          (let fetched =
                 map (withOrder d)
                   (sort_key p_paymentDate
                      (filter (wherePayment d None (Some (startDate, endDate)) None) (payments d)));
               totalAmount = totalOf fetched
           in case eachDayOfInterval tz startDate endDate of
                None \<Rightarrow> Failure 500 ServerError
              | Some days \<Rightarrow>
                  Json 200
                    \<lparr>w_startDate = formatDay tz startDate,
                     w_endDate = formatDay tz endDate,
                     w_totalAmount = totalAmount,
                     w_totalCount = length fetched,
                     w_byDay = map (dayBucket tz fetched) days,
                     w_allPayments = fetched\<rparr>)
      | _ \<Rightarrow> Failure 400 DatesRequired)"

section \<open>Example data\<close>

text \<open>
  A shop with two branches: one order and one payment in each. The payment of branch
  \<open>B1\<close> is made on day 3 and the payment of branch \<open>B2\<close> on day 5.
\<close>

definition staffB1 :: SessionUser where
  "staffB1 =
     \<lparr>u_id = ''u1'', u_name = ''Ama'', u_email = ''ama@example.com'', u_role = ''STAFF'',
      u_branchId = Some ''B1'', u_branchName = Some ''Accra''\<rparr>"

definition orderB1 :: Order where
  "orderB1 =
     \<lparr>o_id = ''o1'', o_orderNumber = ''T-2025-0001'', o_branchId = ''B1'', o_totalAmount = 100\<rparr>"

definition orderB2 :: Order where
  "orderB2 =
     \<lparr>o_id = ''o2'', o_orderNumber = ''T-2025-0002'', o_branchId = ''B2'', o_totalAmount = 80\<rparr>"

definition payB1 :: Payment where
  "payB1 =
     \<lparr>p_id = ''p1'', p_orderId = ''o1'', p_amount = 50, p_paymentDate = 259201000,
      p_paymentMethod = ''CASH'', p_note = None, p_createdBy = None\<rparr>"

definition payB2 :: Payment where
  "payB2 =
     \<lparr>p_id = ''p2'', p_orderId = ''o2'', p_amount = 30, p_paymentDate = 432002000,
      p_paymentMethod = ''MOMO'', p_note = None, p_createdBy = None\<rparr>"

definition shopDb :: db where
  "shopDb =
     \<lparr>orders = [orderB1, orderB2], payments = [payB1, payB2], activityLogs = [], console = []\<rparr>"

text \<open>A request of the staff user of \<open>B1\<close> with the given date parameters.\<close>

definition staffRequest :: "date option \<Rightarrow> date option \<Rightarrow> request" where
  "staffRequest a b = \<lparr>session = Some staffB1, q_orderId = None, q_startDate = a, q_endDate = b\<rparr>"

text \<open>A payment body for order \<open>o1\<close> with the given amount and nothing else.\<close>

definition bodyFor :: "json \<Rightarrow> PaymentBody" where
  "bodyFor a =
     \<lparr>b_orderId = Some ''o1'', b_amount = a, b_paymentDate = None, b_paymentMethod = None,
      b_note = None\<rparr>"

section \<open>Order numbers\<close>

lemma digit_chars_nth: "k < 10 \<Longrightarrow> isDecimalDigit (digit_chars ! k)"
  unfolding isDecimalDigit_def digit_chars_def
  using nth_mem [of k "''0123456789''"] by simp

lemma toString_nat_digits: "\<forall>c \<in> set (toString_nat n). isDecimalDigit c"
proof (induction n rule: toString_nat.induct)
  case (1 n)
  show ?case
  proof (cases "n < 10")
    case True
    then show ?thesis by (subst toString_nat.simps) (simp add: digit_chars_nth)
  next
    case False
    with 1 show ?thesis by (subst toString_nat.simps) (simp add: digit_chars_nth)
  qed
qed

lemma toString_nat_nonempty: "toString_nat n \<noteq> []"
  by (subst toString_nat.simps) simp

lemma isDecimalDigit_cases: "isDecimalDigit c \<longleftrightarrow> c \<in> set ''0123456789''"
  by (simp only: isDecimalDigit_def digit_chars_def)

lemma digit_not_sep: "isDecimalDigit c \<Longrightarrow> c \<noteq> CHR ''-''"
  by (auto simp: isDecimalDigit_cases)

lemma digit_props:
  assumes "isDecimalDigit c"
  shows "\<not> isWhiteSpace c" "c \<noteq> CHR ''+''" "c \<noteq> CHR ''x''" "c \<noteq> CHR ''X''" "isRadixDigit 10 c"
  using assms
  by (auto simp: isDecimalDigit_cases isWhiteSpace_def isRadixDigit_def digitVal_def)

lemma digitVal_digit_chars: "k < 10 \<Longrightarrow> digitVal (digit_chars ! k) = Some k"
proof -
  assume "k < 10"
  then have "k \<in> {0,1,2,3,4,5,6,7,8,9}" by auto
  then show ?thesis
    by (auto simp: digit_chars_def digitVal_def)
qed

lemma split_js_nosep: "sep \<notin> set xs \<Longrightarrow> split_js sep xs = [xs]"
  by (induction xs) auto

lemma split_js_sep: "sep \<notin> set xs \<Longrightarrow> split_js sep (xs @ sep # rest) = xs # split_js sep rest"
  by (induction xs) auto

lemma radixValue_snoc:
  "radixValue r (ds @ [c]) = r * radixValue r ds + (case digitVal c of None \<Rightarrow> 0 | Some v \<Rightarrow> v)"
  by (simp add: radixValue_def)

lemma radixValue_toString_nat: "radixValue 10 (toString_nat n) = n"
proof (induction n rule: toString_nat.induct)
  case (1 n)
  show ?case
  proof (cases "n < 10")
    case True
    then show ?thesis
      by (subst toString_nat.simps) (simp add: radixValue_def digitVal_digit_chars)
  next
    case False
    with 1 have "radixValue 10 (toString_nat (n div 10)) = n div 10" by simp
    with False show ?thesis
      by (subst toString_nat.simps) (simp add: radixValue_snoc digitVal_digit_chars)
  qed
qed

lemma radixValue_zeros: "radixValue 10 (replicate k CHR ''0'' @ ds) = radixValue 10 ds"
proof -
  have dv: "digitVal CHR ''0'' = Some 0" by (simp add: digitVal_def)
  have "foldl (\<lambda>a c. 10 * a + (case digitVal c of None \<Rightarrow> 0 | Some v \<Rightarrow> v)) 0 (replicate k CHR ''0'') = (0::nat)"
    by (induction k) (simp_all add: dv)
  then show ?thesis by (simp add: radixValue_def)
qed

lemma radixValue_padStart: "radixValue 10 (padStart k CHR ''0'' (toString_nat n)) = n"
  by (simp add: padStart_def radixValue_zeros radixValue_toString_nat)

lemma isDecimalDigit_zero: "isDecimalDigit CHR ''0''"
  by (simp add: isDecimalDigit_def digit_chars_def)

lemma padStart_digits: "\<forall>c \<in> set (padStart k CHR ''0'' (toString_nat n)). isDecimalDigit c"
proof
  fix c assume "c \<in> set (padStart k CHR ''0'' (toString_nat n))"
  then have "c \<in> set (replicate (k - length (toString_nat n)) CHR ''0'') \<or> c \<in> set (toString_nat n)"
    by (simp add: padStart_def)
  then show "isDecimalDigit c"
  proof
    assume "c \<in> set (replicate (k - length (toString_nat n)) CHR ''0'')"
    then have "c = CHR ''0''" by (simp split: if_splits)
    then show ?thesis by (simp add: isDecimalDigit_zero)
  next
    assume "c \<in> set (toString_nat n)"
    then show ?thesis using toString_nat_digits by blast
  qed
qed

lemma padStart_nonempty: "padStart k c (toString_nat n) \<noteq> []"
  by (simp add: padStart_def toString_nat_nonempty)

lemma parseInt_str_core:
  assumes ws: "dropWhile isWhiteSpace ds = ds"
    and nohex: "take 2 ds \<noteq> ''0x''" "take 2 ds \<noteq> ''0X''"
    and tw: "takeWhile (isRadixDigit 10) ds = ds"
    and sign: "hd ds \<noteq> CHR ''-''" "hd ds \<noteq> CHR ''+''"
    and ne: "ds \<noteq> []"
  shows "parseInt_str ds = Some (int (radixValue 10 ds))"
proof -
  have "parseInt_str ds =
     (let s1 = ds;
          neg = False;
          s2 = ds;
          hex = False;
          r = 10;
          s3 = ds;
          z = ds
      in if z = [] then None
         else Some ((if neg then - 1 else 1) * int (radixValue r z)))"
    unfolding parseInt_str_def Let_def
    by (simp only: ws nohex tw sign ne if_False if_True simp_thms)
  then show ?thesis by (simp only: Let_def ne if_False mult_1)
qed

lemma parseInt_str_digits:
  assumes "ds \<noteq> []" and "\<forall>c \<in> set ds. isDecimalDigit c"
  shows "parseInt_str ds = Some (int (radixValue 10 ds))"
proof (rule parseInt_str_core)
  obtain c cs where ds: "ds = c # cs" using assms(1) by (cases ds) auto
  have c: "isDecimalDigit c" using assms(2) ds by simp
  show "dropWhile isWhiteSpace ds = ds" using ds digit_props(1) [OF c] by simp
  show "take 2 ds \<noteq> ''0x''"
  proof
    assume "take 2 ds = ''0x''"
    then have "CHR ''x'' \<in> set (take 2 ds)" by simp
    then have "CHR ''x'' \<in> set ds" by (rule in_set_takeD)
    then show False using assms(2) digit_props(3) by blast
  qed
  show "take 2 ds \<noteq> ''0X''"
  proof
    assume "take 2 ds = ''0X''"
    then have "CHR ''X'' \<in> set (take 2 ds)" by simp
    then have "CHR ''X'' \<in> set ds" by (rule in_set_takeD)
    then show False using assms(2) digit_props(4) by blast
  qed
  show "takeWhile (isRadixDigit 10) ds = ds"
    using assms(2) digit_props(5) by (simp add: takeWhile_eq_all_conv)
  show "hd ds \<noteq> CHR ''-''" using ds digit_not_sep [OF c] by simp
  show "hd ds \<noteq> CHR ''+''" using ds digit_props(2) [OF c] by simp
  show "ds \<noteq> []" by (rule assms(1))
qed

lemma generateOrderNumber_digits:
  assumes "ds \<noteq> []" and "\<forall>c \<in> set ds. isDecimalDigit c"
  shows "generateOrderNumber year (Some (orderPrefix year @ ds)) =
         orderPrefix year @ padStart 4 CHR ''0'' (toString_nat (radixValue 10 ds + 1))"
proof -
  let ?y = "toString_nat year"
  have y: "CHR ''-'' \<notin> set ?y" using toString_nat_digits [of year] digit_not_sep by blast
  have d: "CHR ''-'' \<notin> set ds" using assms(2) digit_not_sep by blast
  have "split_js CHR ''-'' (orderPrefix year @ ds) = [''T'', ?y, ds]"
  proof -
    have "split_js CHR ''-'' (''T'' @ CHR ''-'' # (?y @ CHR ''-'' # ds)) = ''T'' # split_js CHR ''-'' (?y @ CHR ''-'' # ds)"
      by (rule split_js_sep) simp
    also have "split_js CHR ''-'' (?y @ CHR ''-'' # ds) = ?y # split_js CHR ''-'' ds"
      using y by (rule split_js_sep)
    also have "split_js CHR ''-'' ds = [ds]" using d by (rule split_js_nosep)
    finally show ?thesis by (simp add: orderPrefix_def)
  qed
  then have idx: "nth_opt (split_js CHR ''-'' (orderPrefix year @ ds)) 2 = Some ds"
    by (simp add: nth_opt_def)
  have sw: "startsWith (orderPrefix year @ ds) (orderPrefix year)"
    by (simp add: startsWith_def)
  have ne: "orderPrefix year @ ds \<noteq> []" using assms(1) by simp
  have pfx: "''T-'' @ toString_nat year @ ''-'' = orderPrefix year" by (simp add: orderPrefix_def)
  show ?thesis
    unfolding generateOrderNumber_def Let_def pfx
    by (simp add: sw assms(1) idx parseInt_str_digits [OF assms] parseInt_def toString_num_def
        toString_int_def nat_add_distrib)
qed

text \<open>
  Claim C5. With no last order number, or one that does not start with the prefix of the
  current year, the next order number is the prefix followed by \<open>0001\<close>; after a last
  order number made of the prefix and a four-digit suffix, it is the prefix followed by the
  suffix plus one, padded with zeros to four digits.
\<close>

theorem generateOrderNumber_next:
  "generateOrderNumber year None = orderPrefix year @ ''0001'' \<and>
   (\<forall>l. \<not> startsWith l (orderPrefix year) \<longrightarrow>
        generateOrderNumber year (Some l) = orderPrefix year @ ''0001'') \<and>
   (\<forall>n. n \<le> 9999 \<longrightarrow>
        generateOrderNumber year (Some (orderPrefix year @ padStart 4 CHR ''0'' (toString_nat n))) =
        orderPrefix year @ padStart 4 CHR ''0'' (toString_nat (n + 1)))"
proof (intro conjI allI impI)
  show "generateOrderNumber year None = orderPrefix year @ ''0001''"
    by (simp add: generateOrderNumber_def orderPrefix_def)
next
  fix l assume "\<not> startsWith l (orderPrefix year)"
  then show "generateOrderNumber year (Some l) = orderPrefix year @ ''0001''"
    by (simp add: generateOrderNumber_def orderPrefix_def)
next
  fix n :: nat
  show "generateOrderNumber year (Some (orderPrefix year @ padStart 4 CHR ''0'' (toString_nat n))) =
        orderPrefix year @ padStart 4 CHR ''0'' (toString_nat (n + 1))"
    using generateOrderNumber_digits [OF padStart_nonempty padStart_digits]
    by (simp only: radixValue_padStart)
qed

lemma orderPrefix_2025: "orderPrefix 2025 = ''T-2025-''"
  by (simp add: orderPrefix_def toString_nat.simps digit_chars_def)

theorem generateOrderNumber_next_witness:
  "generateOrderNumber 2025 None = ''T-2025-0001'' \<and>
   \<not> startsWith ''T-2024-9999'' (orderPrefix 2025) \<and>
   generateOrderNumber 2025 (Some ''T-2024-9999'') = ''T-2025-0001'' \<and>
   (42::nat) \<le> 9999 \<and>
   generateOrderNumber 2025 (Some ''T-2025-0042'') = ''T-2025-0043''"
proof -
  have p42: "padStart 4 CHR ''0'' (toString_nat 42) = ''0042''"
    by code_simp
  have p43: "padStart 4 CHR ''0'' (toString_nat (42 + 1)) = ''0043''"
    by code_simp
  have ns: "\<not> startsWith ''T-2024-9999'' (orderPrefix 2025)"
    by (simp add: startsWith_def orderPrefix_2025)
  note t = generateOrderNumber_next [of 2025]
  have a: "generateOrderNumber 2025 None = ''T-2025-0001''"
    using t by (simp add: orderPrefix_2025)
  have b: "generateOrderNumber 2025 (Some ''T-2024-9999'') = ''T-2025-0001''"
    using t ns by (simp add: orderPrefix_2025)
  have "generateOrderNumber 2025 (Some (orderPrefix 2025 @ padStart 4 CHR ''0'' (toString_nat 42))) =
        orderPrefix 2025 @ padStart 4 CHR ''0'' (toString_nat (42 + 1))"
    by (rule t [THEN conjunct2, THEN conjunct2, THEN spec, THEN mp]) simp
  then have c: "generateOrderNumber 2025 (Some ''T-2025-0042'') = ''T-2025-0043''"
    by (simp only: p42 p43 orderPrefix_2025 append.simps)
  show ?thesis using a b c ns by simp
qed

text \<open>
  A last order number with the prefix and no digit after it is outside the format of claim
  C5: \<open>parseInt\<close> gives \<open>NaN\<close>, which is padded like any other text.
\<close>

lemma generateOrderNumber_no_digits:
  "generateOrderNumber 2025 (Some ''T-2025-'') = ''T-2025-0NaN''"
  by (simp add: generateOrderNumber_def startsWith_def parseInt_def parseInt_str_def nth_opt_def
      padStart_def toString_num_def toString_nat.simps digit_chars_def)

text \<open>
  Claim C10. After the suffix \<open>9999\<close> of the current year the next order number has the
  five-digit suffix \<open>10000\<close>: padding does not cut a longer number.
\<close>

theorem generateOrderNumber_past_9999:
  "generateOrderNumber year (Some (orderPrefix year @ ''9999'')) = orderPrefix year @ ''10000''"
proof -
  have d: "\<forall>c \<in> set ''9999''. isDecimalDigit c" by (simp add: isDecimalDigit_cases)
  have v: "radixValue 10 ''9999'' + 1 = 10000" by (simp add: radixValue_def digitVal_def)
  have s: "padStart 4 CHR ''0'' (toString_nat 10000) = ''10000''"
    by (simp add: padStart_def toString_nat.simps digit_chars_def)
  show ?thesis
    using generateOrderNumber_digits [OF _ d, of year] by (simp only: v s) simp
qed

theorem generateOrderNumber_past_9999_witness:
  "generateOrderNumber 2025 (Some ''T-2025-9999'') = ''T-2025-10000''"
  using generateOrderNumber_past_9999 [of 2025] by (simp add: orderPrefix_2025)

section \<open>Urgency, labels and the branch of an operation\<close>

lemma localDay_shift: "localDay tz (t + k * msPerDay) = localDay tz t + k"
  by (simp add: localDay_def msPerDay_def add.assoc [symmetric] add.commute)

lemma localDay_startOfDay: "localDay tz (startOfDay tz t) = localDay tz t"
  by (simp add: localDay_def startOfDay_def msPerDay_def)

lemma calculateDaysToDue_eq:
  "calculateDaysToDue tz now dueDate = localDay tz dueDate - localDay tz now"
  by (simp add: calculateDaysToDue_def differenceInDays_def localDay_startOfDay)

text \<open>
  Claim C2. Every integer is the day difference of some due date, and the urgency of a due
  date is decided by its day difference \<open>d\<close> alone: overdue for \<open>d \<le> 0\<close>, warning-1 for
  \<open>d = 1\<close>, warning-3 for \<open>d\<close> from 2 to 3, warning-5 for \<open>d\<close> from 4 to 5, safe from 6 on.
  The five ranges are disjoint and cover the integers.
\<close>

theorem getDueDateUrgency_partition:
  "(\<exists>dueDate. calculateDaysToDue tz now dueDate = d) \<and>
   (\<forall>dueDate. calculateDaysToDue tz now dueDate = d \<longrightarrow>
      (d \<le> 0 \<longrightarrow> getDueDateUrgency tz now dueDate = Overdue) \<and>
      (d = 1 \<longrightarrow> getDueDateUrgency tz now dueDate = Warning1) \<and>
      (2 \<le> d \<and> d \<le> 3 \<longrightarrow> getDueDateUrgency tz now dueDate = Warning3) \<and>
      (4 \<le> d \<and> d \<le> 5 \<longrightarrow> getDueDateUrgency tz now dueDate = Warning5) \<and>
      (6 \<le> d \<longrightarrow> getDueDateUrgency tz now dueDate = Safe))"
proof
  have "calculateDaysToDue tz now (now + d * msPerDay) = d"
    by (simp add: calculateDaysToDue_eq localDay_shift)
  then show "\<exists>dueDate. calculateDaysToDue tz now dueDate = d" ..
next
  show "\<forall>dueDate. calculateDaysToDue tz now dueDate = d \<longrightarrow>
      (d \<le> 0 \<longrightarrow> getDueDateUrgency tz now dueDate = Overdue) \<and>
      (d = 1 \<longrightarrow> getDueDateUrgency tz now dueDate = Warning1) \<and>
      (2 \<le> d \<and> d \<le> 3 \<longrightarrow> getDueDateUrgency tz now dueDate = Warning3) \<and>
      (4 \<le> d \<and> d \<le> 5 \<longrightarrow> getDueDateUrgency tz now dueDate = Warning5) \<and>
      (6 \<le> d \<longrightarrow> getDueDateUrgency tz now dueDate = Safe)"
    by (auto simp: getDueDateUrgency_def Let_def)
qed

lemma days_at: "calculateDaysToDue 0 0 (k * msPerDay) = k"
  by (simp add: calculateDaysToDue_eq localDay_def msPerDay_def)

theorem getDueDateUrgency_partition_witness:
  "calculateDaysToDue 0 0 0 = 0 \<and> getDueDateUrgency 0 0 0 = Overdue \<and>
   calculateDaysToDue 0 0 (1 * msPerDay) = 1 \<and> getDueDateUrgency 0 0 (1 * msPerDay) = Warning1 \<and>
   calculateDaysToDue 0 0 (3 * msPerDay) = 3 \<and> getDueDateUrgency 0 0 (3 * msPerDay) = Warning3 \<and>
   calculateDaysToDue 0 0 (5 * msPerDay) = 5 \<and> getDueDateUrgency 0 0 (5 * msPerDay) = Warning5 \<and>
   calculateDaysToDue 0 0 (6 * msPerDay) = 6 \<and> getDueDateUrgency 0 0 (6 * msPerDay) = Safe"
proof -
  note p = getDueDateUrgency_partition [THEN conjunct2, THEN spec, THEN mp, OF days_at]
  have d0: "calculateDaysToDue 0 0 0 = 0" using days_at [of 0] by simp
  have "getDueDateUrgency 0 0 0 = Overdue"
    using getDueDateUrgency_partition [THEN conjunct2, THEN spec, THEN mp, OF d0] by simp
  moreover have "getDueDateUrgency 0 0 (1 * msPerDay) = Warning1" using p [of 1] by simp
  moreover have "getDueDateUrgency 0 0 (3 * msPerDay) = Warning3" using p [of 3] by simp
  moreover have "getDueDateUrgency 0 0 (5 * msPerDay) = Warning5" using p [of 5] by simp
  moreover have "getDueDateUrgency 0 0 (6 * msPerDay) = Safe" using p [of 6] by simp
  ultimately show ?thesis using d0 days_at [of 1] days_at [of 3] days_at [of 5] days_at [of 6]
    by simp
qed

text \<open>
  Claim C6. For an \<open>ADMIN\<close> the resolved branch is the requested one when there is one and
  the user's own branch (possibly none) otherwise; for any other role it is the user's own
  branch whatever was requested, so a \<open>STAFF\<close> user of \<open>B1\<close> asking for \<open>B2\<close> gets \<open>B1\<close>.
\<close>

theorem resolveBranchId_rule:
  "(u_role user = ''ADMIN'' \<longrightarrow>
      resolveBranchId user (Some b) = Some b \<and>
      resolveBranchId user None = u_branchId user) \<and>
   (u_role user \<noteq> ''ADMIN'' \<longrightarrow> resolveBranchId user requested = u_branchId user) \<and>
   resolveBranchId \<lparr>u_id = i, u_name = n, u_email = e, u_role = ''STAFF'',
                     u_branchId = Some ''B1'', u_branchName = bn\<rparr> (Some ''B2'') = Some ''B1''"
  by (simp add: resolveBranchId_def)

theorem resolveBranchId_rule_witness:
  "resolveBranchId \<lparr>u_id = ''u1'', u_name = ''Ama'', u_email = ''a@x'', u_role = ''ADMIN'',
                     u_branchId = None, u_branchName = None\<rparr> (Some ''B2'') = Some ''B2'' \<and>
   resolveBranchId \<lparr>u_id = ''u1'', u_name = ''Ama'', u_email = ''a@x'', u_role = ''ADMIN'',
                     u_branchId = None, u_branchName = None\<rparr> None = None \<and>
   resolveBranchId \<lparr>u_id = ''u2'', u_name = ''Kofi'', u_email = ''k@x'', u_role = ''VIEWER'',
                     u_branchId = Some ''B1'', u_branchName = None\<rparr> (Some ''B2'') = Some ''B1''"
  using resolveBranchId_rule [of "\<lparr>u_id = ''u1'', u_name = ''Ama'', u_email = ''a@x'', u_role = ''ADMIN'',
                     u_branchId = None, u_branchName = None\<rparr>" "''B2''"]
    resolveBranchId_rule [of "\<lparr>u_id = ''u2'', u_name = ''Kofi'', u_email = ''k@x'', u_role = ''VIEWER'',
                     u_branchId = Some ''B1'', u_branchName = None\<rparr>" _ "Some ''B2''"]
  by simp

text \<open>
  Claim C8 as stated fails for the urgency overdue with a day difference of 1: the label is
  \<open>1 days overdue\<close>, not \<open>Due Tomorrow\<close>.
\<close>

theorem getUrgencyLabel_overdue_one:
  "getUrgencyLabel Overdue 1 = ''1 days overdue'' \<and> getUrgencyLabel Overdue 1 \<noteq> ''Due Tomorrow''"
  by (simp add: getUrgencyLabel_def toString_int_def toString_nat.simps digit_chars_def)

text \<open>
  Claim C8, amended. For the urgency overdue the label is \<open>Due Today\<close> at day difference
  0 and the absolute value followed by \<open>days overdue\<close> at any other; for the other
  urgencies it is \<open>Due Tomorrow\<close> at day difference 1 and the day difference followed by
  \<open>days left\<close> at any other.
\<close>

theorem getUrgencyLabel_cases:
  "(urgency = Overdue \<and> days = 0 \<longrightarrow> getUrgencyLabel urgency days = ''Due Today'') \<and>
   (urgency = Overdue \<and> days \<noteq> 0 \<longrightarrow>
      getUrgencyLabel urgency days = toString_nat (nat \<bar>days\<bar>) @ '' days overdue'') \<and>
   (urgency \<noteq> Overdue \<and> days = 1 \<longrightarrow> getUrgencyLabel urgency days = ''Due Tomorrow'') \<and>
   (urgency \<noteq> Overdue \<and> days \<noteq> 1 \<longrightarrow>
      getUrgencyLabel urgency days = toString_int days @ '' days left'')"
  by (simp add: getUrgencyLabel_def toString_int_def)

theorem getUrgencyLabel_cases_witness:
  "getUrgencyLabel Overdue 0 = ''Due Today'' \<and>
   getUrgencyLabel Overdue (- 2) = ''2 days overdue'' \<and>
   getUrgencyLabel Warning1 1 = ''Due Tomorrow'' \<and>
   getUrgencyLabel Safe 12 = ''12 days left''"
proof -
  have n2: "toString_nat (nat \<bar>- 2\<bar>) = ''2''" by code_simp
  have n12: "toString_int 12 = ''12''" by code_simp
  show ?thesis
    using getUrgencyLabel_cases [of Overdue 0] getUrgencyLabel_cases [of Overdue "- 2"]
      getUrgencyLabel_cases [of Warning1 1] getUrgencyLabel_cases [of Safe 12] n2 n12
    by simp
qed

text \<open>
  When the urgency is the one computed from the same day difference, the label is the one
  the day difference alone selects.
\<close>

lemma getUrgencyLabel_consistent:
  "calculateDaysToDue tz now dueDate = days \<Longrightarrow> urgency = getDueDateUrgency tz now dueDate \<Longrightarrow>
   getUrgencyLabel urgency days =
     (if days = 0 then ''Due Today''
      else if days < 0 then toString_nat (nat \<bar>days\<bar>) @ '' days overdue''
      else if days = 1 then ''Due Tomorrow''
      else toString_int days @ '' days left'')"
  by (auto simp: getUrgencyLabel_def getDueDateUrgency_def Let_def toString_int_def)

section \<open>The activity log never fails its caller\<close>

lemma logActivity_cases:
  "logActivity fault params d =
     (case fault of
        None \<Rightarrow> Inr (d\<lparr>activityLogs := activityLogs d @
                   [\<lparr>al_userId = la_userId params,
                     al_userName = la_userName params,
                     al_branchId = la_branchId params,
                     al_action = la_action params,
                     al_entity = la_entity params,
                     al_entityId = present (la_entityId params),
                     al_description = la_description params\<rparr>]\<rparr>)
      | Some e \<Rightarrow> Inr (d\<lparr>console := console d @ [''Failed to log activity: '' @ e]\<rparr>))"
  by (simp add: logActivity_def activityLog_create_def present_def split: option.splits)

lemma logActivity_returns: "\<exists>d'. logActivity fault params d = Inr d' \<and> orders d' = orders d \<and> payments d' = payments d"
  by (cases fault) (simp_all add: logActivity_cases)

lemma payments_POST_branch_fault:
  "fst (payments_POST_branch fault now newId req body d) =
   fst (payments_POST_branch fault' now newId req body d) \<and>
   payments (snd (payments_POST_branch fault now newId req body d)) =
   payments (snd (payments_POST_branch fault' now newId req body d)) \<and>
   orders (snd (payments_POST_branch fault now newId req body d)) =
   orders (snd (payments_POST_branch fault' now newId req body d))"
  by (cases fault; cases fault')
     (simp_all add: payments_POST_branch_def Let_def logActivity_cases
        split: sum.splits option.splits jsnum.splits)

text \<open>
  Claim C9. \<open>logActivity\<close> returns normally whatever the storage does: when the write fails
  it prints the error and leaves the log as it was, when the write succeeds it appends one
  row, and in both cases orders and payments are untouched. The answer of the payment route
  that calls it, and the payments it leaves, do not depend on whether the write failed.
\<close>

theorem logActivity_absorbs_failure:
  "logActivity (Some e) params d =
     Inr (d\<lparr>console := console d @ [''Failed to log activity: '' @ e]\<rparr>) \<and>
   (\<exists>row. logActivity None params d = Inr (d\<lparr>activityLogs := activityLogs d @ [row]\<rparr>)) \<and>
   (\<forall>fault. \<exists>d'. logActivity fault params d = Inr d' \<and>
        orders d' = orders d \<and> payments d' = payments d) \<and>
   (\<forall>fault fault'.
      fst (payments_POST_branch fault now newId req body d) =
      fst (payments_POST_branch fault' now newId req body d) \<and>
      payments (snd (payments_POST_branch fault now newId req body d)) =
      payments (snd (payments_POST_branch fault' now newId req body d)))"
proof (intro conjI allI)
  show "logActivity (Some e) params d =
     Inr (d\<lparr>console := console d @ [''Failed to log activity: '' @ e]\<rparr>)"
    by (simp add: logActivity_cases)
  show "\<exists>row. logActivity None params d = Inr (d\<lparr>activityLogs := activityLogs d @ [row]\<rparr>)"
    unfolding logActivity_cases by (simp only: option.case) (rule exI, rule refl)
  show "\<exists>d'. logActivity fault params d = Inr d' \<and>
        orders d' = orders d \<and> payments d' = payments d" for fault
    by (rule logActivity_returns)
  show "fst (payments_POST_branch fault now newId req body d) =
      fst (payments_POST_branch fault' now newId req body d)" for fault fault'
    using payments_POST_branch_fault by blast
  show "payments (snd (payments_POST_branch fault now newId req body d)) =
      payments (snd (payments_POST_branch fault' now newId req body d))" for fault fault'
    using payments_POST_branch_fault by blast
qed


text \<open>A payment of 20 by the staff user of \<open>B1\<close> is recorded although the audit write fails.\<close>

lemma post_created:
  "fst (payments_POST_branch (Some ''storage unavailable'') 500000000 ''p3''
          (staffRequest None None) (bodyFor (JNum 20)) shopDb) =
   Json 201
     (\<lparr>p_id = ''p3'', p_orderId = ''o1'', p_amount = 20, p_paymentDate = 500000000,
       p_paymentMethod = ''CASH'', p_note = None, p_createdBy = Some ''u1''\<rparr>,
      orderB1,
      [payB1, \<lparr>p_id = ''p3'', p_orderId = ''o1'', p_amount = 20, p_paymentDate = 500000000,
       p_paymentMethod = ''CASH'', p_note = None, p_createdBy = Some ''u1''\<rparr>])"
  by (simp add: payments_POST_branch_def requireAuth_def staffRequest_def bodyFor_def present_def
      falsy_def toNumber_def jsnum_le_def findOrder_def shopDb_def orderB1_def orderB2_def
      hasAccessToBranch_def staffB1_def sumAmounts_def paymentsOf_def payB1_def payB2_def
      parseFloat_def paymentData_def logActivity_cases Let_def)

theorem logActivity_absorbs_failure_witness:
  "logActivity (Some ''storage unavailable'')
     \<lparr>la_userId = ''u1'', la_userName = ''Ama'', la_branchId = ''B1'', la_action = CREATE,
      la_entity = PAYMENT, la_entityId = Some ''p3'',
      la_description = Described ''Recorded payment''\<rparr> shopDb =
   Inr (shopDb\<lparr>console := [''Failed to log activity: storage unavailable'']\<rparr>) \<and>
   fst (payments_POST_branch None 500000000 ''p3''
          (staffRequest None None) (bodyFor (JNum 20)) shopDb) =
   Json 201
     (\<lparr>p_id = ''p3'', p_orderId = ''o1'', p_amount = 20, p_paymentDate = 500000000,
       p_paymentMethod = ''CASH'', p_note = None, p_createdBy = Some ''u1''\<rparr>,
      orderB1,
      [payB1, \<lparr>p_id = ''p3'', p_orderId = ''o1'', p_amount = 20, p_paymentDate = 500000000,
       p_paymentMethod = ''CASH'', p_note = None, p_createdBy = Some ''u1''\<rparr>])"
proof -
  note t = logActivity_absorbs_failure [of "''storage unavailable''"
      "\<lparr>la_userId = ''u1'', la_userName = ''Ama'', la_branchId = ''B1'', la_action = CREATE,
      la_entity = PAYMENT, la_entityId = Some ''p3'',
      la_description = Described ''Recorded payment''\<rparr>" shopDb 500000000 "''p3''"
      "staffRequest None None" "bodyFor (JNum 20)"]
  have a: "logActivity (Some ''storage unavailable'')
     \<lparr>la_userId = ''u1'', la_userName = ''Ama'', la_branchId = ''B1'', la_action = CREATE,
      la_entity = PAYMENT, la_entityId = Some ''p3'',
      la_description = Described ''Recorded payment''\<rparr> shopDb =
   Inr (shopDb\<lparr>console := [''Failed to log activity: storage unavailable'']\<rparr>)"
    using t by (simp add: shopDb_def)
  have "fst (payments_POST_branch None 500000000 ''p3''
          (staffRequest None None) (bodyFor (JNum 20)) shopDb) =
        fst (payments_POST_branch (Some ''storage unavailable'') 500000000 ''p3''
          (staffRequest None None) (bodyFor (JNum 20)) shopDb)"
    using t by blast
  with a post_created show ?thesis by simp
qed

section \<open>The day buckets of the weekly report\<close>

lemma localDay_midnight: "localDay tz (k * msPerDay - tz) = k"
  by (simp add: localDay_def msPerDay_def)

lemma totalOf_sum: "totalOf ps = sum_list (map (\<lambda>p. p_amount (fst p)) ps)"
proof -
  have "foldl (\<lambda>sum p. sum + p_amount (fst p)) a ps = a + sum_list (map (\<lambda>p. p_amount (fst p)) ps)" for a
    by (induction ps arbitrary: a) (simp_all add: add.assoc)
  then show ?thesis by (simp add: totalOf_def)
qed

lemma dayBucket_date: "d_date (dayBucket tz fetched (k * msPerDay - tz)) = k"
  by (simp add: dayBucket_def Let_def formatDay_def localDay_midnight)

lemma byDay_dates:
  "map d_date (map (dayBucket tz fetched) (map (\<lambda>k. k * msPerDay - tz) ks)) = ks"
  by (induction ks) (simp_all add: dayBucket_date)

lemma dayBucket_props:
  "d_payments (dayBucket tz fetched day) =
     filter (\<lambda>p. localDay tz (p_paymentDate (fst p)) = d_date (dayBucket tz fetched day)) fetched \<and>
   d_count (dayBucket tz fetched day) = length (d_payments (dayBucket tz fetched day)) \<and>
   d_total (dayBucket tz fetched day) =
     sum_list (map (\<lambda>p. p_amount (fst p)) (d_payments (dayBucket tz fetched day)))"
  by (simp add: dayBucket_def Let_def formatDay_def totalOf_sum)

text \<open>
  Claim C7. For a range whose start is not after its end the report has exactly one bucket
  for each calendar day from the day of the start to the day of the end, in order. A bucket
  holds the fetched payments whose payment date falls on its calendar day, whatever the time
  of day, with their count and their total; a day without payments has count 0 and total 0.
\<close>

theorem weekly_GET_day_buckets:
  assumes "q_startDate req = Some startDate" and "q_endDate req = Some endDate"
    and "startDate \<le> endDate"
  shows "\<exists>r. weekly_GET tz req d = Json 200 r \<and>
     map d_date (w_byDay r) = [localDay tz startDate..localDay tz endDate] \<and>
     length (w_byDay r) = nat (localDay tz endDate - localDay tz startDate + 1) \<and>
     (\<forall>b \<in> set (w_byDay r).
        d_payments b =
          filter (\<lambda>p. localDay tz (p_paymentDate (fst p)) = d_date b) (w_allPayments r) \<and>
        d_count b = length (d_payments b) \<and>
        d_total b = sum_list (map (\<lambda>p. p_amount (fst p)) (d_payments b)) \<and>
        (d_payments b = [] \<longrightarrow> d_count b = 0 \<and> d_total b = 0))"
proof -
  let ?fetched = "map (withOrder d)
                   (sort_key p_paymentDate
                      (filter (wherePayment d None (Some (startDate, endDate)) None) (payments d)))"
  let ?days = "map (\<lambda>k. k * msPerDay - tz) [localDay tz startDate..localDay tz endDate]"
  let ?r = "\<lparr>w_startDate = formatDay tz startDate,
             w_endDate = formatDay tz endDate,
             w_totalAmount = totalOf ?fetched,
             w_totalCount = length ?fetched,
             w_byDay = map (dayBucket tz ?fetched) ?days,
             w_allPayments = ?fetched\<rparr>"
  have res: "weekly_GET tz req d = Json 200 ?r"
    using assms by (simp add: weekly_GET_def eachDayOfInterval_def Let_def)
  have dates: "map d_date (w_byDay ?r) = [localDay tz startDate..localDay tz endDate]"
    by (simp only: WeeklyReport.simps byDay_dates)
  have len: "length (w_byDay ?r) = nat (localDay tz endDate - localDay tz startDate + 1)"
    by simp
  have buckets: "\<forall>b \<in> set (w_byDay ?r).
        d_payments b =
          filter (\<lambda>p. localDay tz (p_paymentDate (fst p)) = d_date b) (w_allPayments ?r) \<and>
        d_count b = length (d_payments b) \<and>
        d_total b = sum_list (map (\<lambda>p. p_amount (fst p)) (d_payments b)) \<and>
        (d_payments b = [] \<longrightarrow> d_count b = 0 \<and> d_total b = 0)"
  proof
    fix b assume "b \<in> set (w_byDay ?r)"
    then obtain day where b: "b = dayBucket tz ?fetched day" by auto
    show "d_payments b =
          filter (\<lambda>p. localDay tz (p_paymentDate (fst p)) = d_date b) (w_allPayments ?r) \<and>
        d_count b = length (d_payments b) \<and>
        d_total b = sum_list (map (\<lambda>p. p_amount (fst p)) (d_payments b)) \<and>
        (d_payments b = [] \<longrightarrow> d_count b = 0 \<and> d_total b = 0)"
      using dayBucket_props [of tz ?fetched day] unfolding b by simp
  qed
  from res dates len buckets show ?thesis by blast
qed

text \<open>The report of the example shop for the seven days 1 to 7.\<close>

lemma payB1_sel:
  "p_orderId payB1 = ''o1''" "p_amount payB1 = 50" "p_paymentDate payB1 = 259201000"
  by (simp_all add: payB1_def)

lemma payB2_sel:
  "p_orderId payB2 = ''o2''" "p_amount payB2 = 30" "p_paymentDate payB2 = 432002000"
  by (simp_all add: payB2_def)

lemma shopDb_sel: "orders shopDb = [orderB1, orderB2]" "payments shopDb = [payB1, payB2]"
  by (simp_all add: shopDb_def)

lemma shopDb_find:
  "findOrder shopDb ''o1'' = Some orderB1" "findOrder shopDb ''o2'' = Some orderB2"
  by (simp_all add: findOrder_def shopDb_sel orderB1_def orderB2_def)

lemma week_days: "[localDay 0 86400000..localDay 0 691199999] = [1, 2, 3, 4, 5, 6, 7]"
  by (simp add: localDay_def msPerDay_def upto_rec1)

lemma week_fetched:
  "map (withOrder shopDb)
     (sort_key p_paymentDate
        (filter (wherePayment shopDb None (Some (86400000, 691199999)) None) (payments shopDb))) =
   [(payB1, Some orderB1), (payB2, Some orderB2)]"
  by (simp add: shopDb_sel wherePayment_def payB1_sel payB2_sel withOrder_def shopDb_find)

lemma week_buckets:
  "map (dayBucket 0 [(payB1, Some orderB1), (payB2, Some orderB2)])
     (map (\<lambda>k. k * msPerDay - 0) [1, 2, 3, 4, 5, 6, 7]) =
   [\<lparr>d_date = 1, d_dayName = ''Friday'', d_total = 0, d_count = 0, d_payments = []\<rparr>,
    \<lparr>d_date = 2, d_dayName = ''Saturday'', d_total = 0, d_count = 0, d_payments = []\<rparr>,
    \<lparr>d_date = 3, d_dayName = ''Sunday'', d_total = 50, d_count = 1,
      d_payments = [(payB1, Some orderB1)]\<rparr>,
    \<lparr>d_date = 4, d_dayName = ''Monday'', d_total = 0, d_count = 0, d_payments = []\<rparr>,
    \<lparr>d_date = 5, d_dayName = ''Tuesday'', d_total = 30, d_count = 1,
      d_payments = [(payB2, Some orderB2)]\<rparr>,
    \<lparr>d_date = 6, d_dayName = ''Wednesday'', d_total = 0, d_count = 0, d_payments = []\<rparr>,
    \<lparr>d_date = 7, d_dayName = ''Thursday'', d_total = 0, d_count = 0, d_payments = []\<rparr>]"
  by (simp add: dayBucket_def formatDay_def dayName_def localDay_def msPerDay_def totalOf_def
      payB1_sel payB2_sel Let_def)

lemma shop_week:
  "weekly_GET 0 (staffRequest (Some 86400000) (Some 691199999)) shopDb =
   Json 200
     \<lparr>w_startDate = 1, w_endDate = 7, w_totalAmount = 80, w_totalCount = 2,
      w_byDay = map (dayBucket 0 [(payB1, Some orderB1), (payB2, Some orderB2)])
                  (map (\<lambda>k. k * msPerDay - 0) [1, 2, 3, 4, 5, 6, 7]),
      w_allPayments = [(payB1, Some orderB1), (payB2, Some orderB2)]\<rparr>"
proof -
  have f: "formatDay 0 86400000 = 1" "formatDay 0 691199999 = 7"
    by (simp_all add: formatDay_def localDay_def msPerDay_def)
  have t: "totalOf [(payB1, Some orderB1), (payB2, Some orderB2)] = 80"
    by (simp add: totalOf_def payB1_sel payB2_sel)
  show ?thesis
    by (simp add: weekly_GET_def staffRequest_def eachDayOfInterval_def Let_def week_fetched
        week_days f t)
qed


theorem weekly_GET_day_buckets_witness:
  "q_startDate (staffRequest (Some 86400000) (Some 691199999)) = Some 86400000 \<and>
   q_endDate (staffRequest (Some 86400000) (Some 691199999)) = Some 691199999 \<and>
   (86400000 :: int) \<le> 691199999 \<and>
   (\<exists>r. weekly_GET 0 (staffRequest (Some 86400000) (Some 691199999)) shopDb = Json 200 r \<and>
        map d_date (w_byDay r) = [1, 2, 3, 4, 5, 6, 7] \<and>
        length (w_byDay r) = 7 \<and>
        map d_count (w_byDay r) = [0, 0, 1, 0, 1, 0, 0] \<and>
        map d_total (w_byDay r) = [0, 0, 50, 0, 30, 0, 0])"
proof -
  have s: "q_startDate (staffRequest (Some 86400000) (Some 691199999)) = Some 86400000"
    and e: "q_endDate (staffRequest (Some 86400000) (Some 691199999)) = Some 691199999"
    by (simp_all add: staffRequest_def)
  have le: "(86400000 :: int) \<le> 691199999" by simp
  from weekly_GET_day_buckets [OF s e le, of 0 shopDb]
  obtain r where r: "weekly_GET 0 (staffRequest (Some 86400000) (Some 691199999)) shopDb = Json 200 r"
    and dates: "map d_date (w_byDay r) = [localDay 0 86400000..localDay 0 691199999]"
    and len: "length (w_byDay r) = nat (localDay 0 691199999 - localDay 0 86400000 + 1)"
    by blast
  from dates have d7: "map d_date (w_byDay r) = [1, 2, 3, 4, 5, 6, 7]" by (simp only: week_days)
  from len have l7: "length (w_byDay r) = 7" by (simp add: localDay_def msPerDay_def)
  from r have "w_byDay r = map (dayBucket 0 [(payB1, Some orderB1), (payB2, Some orderB2)])
                  (map (\<lambda>k. k * msPerDay - 0) [1, 2, 3, 4, 5, 6, 7])"
    unfolding shop_week by auto
  then have c: "map d_count (w_byDay r) = [0, 0, 1, 0, 1, 0, 0]"
    and t: "map d_total (w_byDay r) = [0, 0, 50, 0, 30, 0, 0]"
    by (simp_all only: week_buckets) simp_all
  have ex: "\<exists>r. weekly_GET 0 (staffRequest (Some 86400000) (Some 691199999)) shopDb = Json 200 r \<and>
        map d_date (w_byDay r) = [1, 2, 3, 4, 5, 6, 7] \<and>
        length (w_byDay r) = 7 \<and>
        map d_count (w_byDay r) = [0, 0, 1, 0, 1, 0, 0] \<and>
        map d_total (w_byDay r) = [0, 0, 50, 0, 30, 0, 0]"
    by (rule exI [of _ r]) (intro conjI r d7 l7 c t)
  show ?thesis by (intro conjI s e le ex)
qed


section \<open>Branch scoping of the payment lists\<close>

text \<open>
  Claim C1 fails on two payment lists. Asked by the staff user of branch \<open>B1\<close>, the
  payment list of \<open>tailor-shop/src/app/api/payments/route.ts\<close> and the weekly report both
  return the payment of the order of branch \<open>B2\<close>: neither handler reads the session.
\<close>

theorem payment_lists_not_scoped:
  "u_role staffB1 = ''STAFF'' \<and> u_branchId staffB1 = Some ''B1'' \<and> o_branchId orderB2 = ''B2'' \<and>
   payments_GET (staffRequest None None) shopDb =
     Json 200 [(payB2, Some orderB2), (payB1, Some orderB1)] \<and>
   (\<exists>r. weekly_GET 0 (staffRequest (Some 86400000) (Some 691199999)) shopDb = Json 200 r \<and>
        w_allPayments r = [(payB1, Some orderB1), (payB2, Some orderB2)])"
proof -
  have a: "payments_GET (staffRequest None None) shopDb =
     Json 200 [(payB2, Some orderB2), (payB1, Some orderB1)]"
    by (simp add: payments_GET_def staffRequest_def present_def dateRange_def shopDb_sel
        wherePayment_def payB1_sel payB2_sel withOrder_def shopDb_find)
  have b: "\<exists>r. weekly_GET 0 (staffRequest (Some 86400000) (Some 691199999)) shopDb = Json 200 r \<and>
        w_allPayments r = [(payB1, Some orderB1), (payB2, Some orderB2)]"
    unfolding shop_week by simp
  from a b show ?thesis by (simp add: staffB1_def orderB2_def)
qed

lemma findOrder_id: "findOrder d oid = Some ord \<Longrightarrow> o_id ord = oid"
  by (auto simp: findOrder_def find_Some_iff)

text \<open>
  The payment list of the multi-branch version of the route does scope: every payment it
  returns to a user who is not an \<open>ADMIN\<close> belongs to an order of the user's branch.
\<close>

lemma payments_GET_branch_scoped:
  assumes "session req = Some user" and "u_role user \<noteq> ''ADMIN''"
    and "payments_GET_branch req d = Json 200 rows"
  shows "\<forall>row \<in> set rows. \<exists>ord. snd row = Some ord \<and> u_branchId user = Some (o_branchId ord)"
proof -
  obtain b where b: "u_branchId user = Some b"
    using assms by (auto simp: payments_GET_branch_def requireAuth_def present_def split: option.splits if_splits)
  have rows: "rows = map (withOrder d)
                 (sort_key (\<lambda>p. - p_paymentDate p)
                    (filter (wherePayment d (present (q_orderId req)) (dateRange req) (Some b))
                       (payments d)))"
    using assms b by (auto simp: payments_GET_branch_def requireAuth_def split: if_splits)
  show ?thesis
  proof
    fix row assume "row \<in> set rows"
    then obtain p where p: "row = withOrder d p"
      and w: "wherePayment d (present (q_orderId req)) (dateRange req) (Some b) p"
      unfolding rows by auto
    from w obtain ord where "findOrder d (p_orderId p) = Some ord" "o_branchId ord = b"
      by (auto simp: wherePayment_def split: option.splits)
    then show "\<exists>ord. snd row = Some ord \<and> u_branchId user = Some (o_branchId ord)"
      using p b by (simp add: withOrder_def)
  qed
qed

lemma payments_GET_branch_example:
  "payments_GET_branch (staffRequest None None) shopDb = Json 200 [(payB1, Some orderB1)]"
  by (simp add: payments_GET_branch_def requireAuth_def staffRequest_def staffB1_def present_def
      dateRange_def shopDb_def wherePayment_def payB1_def payB2_def withOrder_def findOrder_def
      orderB1_def orderB2_def)

section \<open>Recording a payment\<close>

text \<open>
  A text with digits first and other characters after them is no number for the comparisons
  of the checks, and \<open>parseFloat\<close> reads the digits.
\<close>

lemma coerce_100abc:
  "toNumber (JStr ''100abc'') = NaN" "parseFloat (JStr ''100abc'') = Fin 100"
  by code_simp+

lemma coerce_neg5abc:
  "toNumber (JStr ''-5abc'') = NaN" "parseFloat (JStr ''-5abc'') = Fin (- 5)"
  by code_simp+

lemma coerce_50:
  "toNumber (JStr ''50'') = Fin 50" "parseFloat (JStr ''50'') = Fin 50"
  by code_simp+

lemma orderB1_sel: "o_id orderB1 = ''o1''" "o_totalAmount orderB1 = 100" "o_branchId orderB1 = ''B1''"
  by (simp_all add: orderB1_def)

lemma paid_o1: "paymentsOf shopDb ''o1'' = [payB1]"
  by (simp add: paymentsOf_def shopDb_sel payB1_sel payB2_sel)

text \<open>
  Claim C3 fails on the route. Order \<open>o1\<close> has a total of 100 and one payment of 50. A
  request with the amount \<open>"100abc"\<close> passes both checks, since every comparison with
  \<open>NaN\<close> is false, and a payment of 100 is stored: the payments of the order then sum
  to 150.
\<close>

theorem payments_POST_overpays:
  "payments_POST 500000000 ''p3'' (bodyFor (JStr ''100abc'')) shopDb =
     (Json 201
        (\<lparr>p_id = ''p3'', p_orderId = ''o1'', p_amount = 100, p_paymentDate = 500000000,
          p_paymentMethod = ''CASH'', p_note = None, p_createdBy = None\<rparr>,
         orderB1,
         [payB1,
          \<lparr>p_id = ''p3'', p_orderId = ''o1'', p_amount = 100, p_paymentDate = 500000000,
            p_paymentMethod = ''CASH'', p_note = None, p_createdBy = None\<rparr>]),
      shopDb\<lparr>payments :=
        [payB1, payB2,
         \<lparr>p_id = ''p3'', p_orderId = ''o1'', p_amount = 100, p_paymentDate = 500000000,
           p_paymentMethod = ''CASH'', p_note = None, p_createdBy = None\<rparr>]\<rparr>) \<and>
   sumAmounts
     [payB1,
      \<lparr>p_id = ''p3'', p_orderId = ''o1'', p_amount = 100, p_paymentDate = 500000000,
        p_paymentMethod = ''CASH'', p_note = None, p_createdBy = None\<rparr>] = 150 \<and>
   o_totalAmount orderB1 = 100"
  by (simp add: payments_POST_def bodyFor_def present_def falsy_def coerce_100abc jsnum_le_def
      shopDb_find orderB1_sel paid_o1 sumAmounts_def payB1_sel paymentData_def paymentsOf_def
      shopDb_sel payB2_sel Let_def)

text \<open>
  Claim C4 fails on the route for the same reason. A request with the amount \<open>"-5abc"\<close>,
  which is no positive number, is not answered with the invalid-amount failure: a payment of
  \<open>- 5\<close> is stored.
\<close>

theorem payments_POST_accepts_negative:
  "payments_POST 500000000 ''p3'' (bodyFor (JStr ''-5abc'')) shopDb =
     (Json 201
        (\<lparr>p_id = ''p3'', p_orderId = ''o1'', p_amount = - 5, p_paymentDate = 500000000,
          p_paymentMethod = ''CASH'', p_note = None, p_createdBy = None\<rparr>,
         orderB1,
         [payB1,
          \<lparr>p_id = ''p3'', p_orderId = ''o1'', p_amount = - 5, p_paymentDate = 500000000,
            p_paymentMethod = ''CASH'', p_note = None, p_createdBy = None\<rparr>]),
      shopDb\<lparr>payments :=
        [payB1, payB2,
         \<lparr>p_id = ''p3'', p_orderId = ''o1'', p_amount = - 5, p_paymentDate = 500000000,
           p_paymentMethod = ''CASH'', p_note = None, p_createdBy = None\<rparr>]\<rparr>)"
  by (simp add: payments_POST_def bodyFor_def present_def falsy_def coerce_neg5abc jsnum_le_def
      shopDb_find orderB1_sel paid_o1 sumAmounts_def payB1_sel paymentData_def paymentsOf_def
      shopDb_sel payB2_sel Let_def)

text \<open>
  For an amount sent as a JSON number the route behaves as claims C3 and C4 say: it fails
  with the invalid-amount failure exactly for amounts that are not positive, with the
  exceeds-balance failure exactly for positive amounts above the balance, and otherwise
  appends one payment of that amount; a failure leaves the tables as they were.
\<close>

lemma sumAmounts_sum: "sumAmounts ps = sum_list (map p_amount ps)"
proof -
  have "foldl (\<lambda>sum p. sum + p_amount p) a ps = a + sum_list (map p_amount ps)" for a
    by (induction ps arbitrary: a) (simp_all add: add.assoc)
  then show ?thesis by (simp add: sumAmounts_def)
qed

lemma sumAmounts_snoc: "sumAmounts (ps @ [p]) = sumAmounts ps + p_amount p"
  by (simp add: sumAmounts_sum)

lemma payments_POST_number:
  assumes "b_orderId body = Some oid" and "oid \<noteq> []" and "findOrder d oid = Some ord"
    and "b_amount body = JNum a"
  shows "payments_POST now newId body d =
     (if a \<le> 0 then (Failure 400 InvalidAmount, d)
      else if o_totalAmount ord - sumAmounts (paymentsOf d oid) < a
      then (Failure 400 (ExceedsBalance (o_totalAmount ord - sumAmounts (paymentsOf d oid))), d)
      else (Json 201 (paymentData now newId body oid a None, ord,
                      paymentsOf d oid @ [paymentData now newId body oid a None]),
            d\<lparr>payments := payments d @ [paymentData now newId body oid a None]\<rparr>))"
  using assms findOrder_id [OF assms(3)]
  by (auto simp: payments_POST_def present_def falsy_def toNumber_def jsnum_le_def parseFloat_def
      Let_def paymentsOf_def paymentData_def)

text \<open>
  After a recorded payment of a JSON number the payments of the order sum to at most its
  total, and the balance has gone down by the amount.
\<close>

lemma payments_POST_number_invariant:
  assumes "b_orderId body = Some oid" and "oid \<noteq> []" and "findOrder d oid = Some ord"
    and "b_amount body = JNum a"
    and "payments_POST now newId body d = (Json 201 res, d')"
  shows "0 < a \<and> a \<le> o_totalAmount ord - sumAmounts (paymentsOf d oid) \<and>
         sumAmounts (paymentsOf d' oid) = sumAmounts (paymentsOf d oid) + a \<and>
         sumAmounts (paymentsOf d' oid) \<le> o_totalAmount ord \<and>
         o_totalAmount ord - sumAmounts (paymentsOf d' oid) =
           (o_totalAmount ord - sumAmounts (paymentsOf d oid)) - a"
proof -
  note eq = payments_POST_number [OF assms(1-4), of now newId]
  from assms(5) eq have pos: "0 < a" and le: "a \<le> o_totalAmount ord - sumAmounts (paymentsOf d oid)"
    and d': "d' = d\<lparr>payments := payments d @ [paymentData now newId body oid a None]\<rparr>"
    by (auto split: if_splits)
  have "paymentsOf d' oid = paymentsOf d oid @ [paymentData now newId body oid a None]"
    unfolding d' by (simp add: paymentsOf_def paymentData_def)
  then have s: "sumAmounts (paymentsOf d' oid) = sumAmounts (paymentsOf d oid) + a"
    by (simp add: sumAmounts_snoc paymentData_def)
  from pos le s show ?thesis by simp
qed

text \<open>The text \<open>"50"\<close>, the exact balance of order \<open>o1\<close>, is recorded.\<close>

lemma payments_POST_exact_balance:
  "fst (payments_POST 500000000 ''p3'' (bodyFor (JStr ''50'')) shopDb) =
     Json 201
        (\<lparr>p_id = ''p3'', p_orderId = ''o1'', p_amount = 50, p_paymentDate = 500000000,
          p_paymentMethod = ''CASH'', p_note = None, p_createdBy = None\<rparr>,
         orderB1,
         [payB1,
          \<lparr>p_id = ''p3'', p_orderId = ''o1'', p_amount = 50, p_paymentDate = 500000000,
            p_paymentMethod = ''CASH'', p_note = None, p_createdBy = None\<rparr>])"
  by (simp add: payments_POST_def bodyFor_def present_def falsy_def coerce_50 jsnum_le_def
      shopDb_find orderB1_sel paid_o1 sumAmounts_def payB1_sel paymentData_def paymentsOf_def
      shopDb_sel payB2_sel Let_def)

end
